theory Spec2Isabelle
  imports Main
begin

section \<open>Descriptor synthesis for C++ objects (\<open>src/rt/cpp/vobject.h\<close>)\<close>

text \<open>
  The header builds, for a user class \<open>T\<close> that derives from \<open>V<T>\<close> or \<open>VCown<T>\<close>, a
  table of callbacks (the descriptor) and the allocation entry points that hand this
  table to the region and allocator code. Everything the templates decide is decided
  from facts about \<open>T\<close> that the compiler knows; the model takes these facts as a record
  and turns each template into a function of that record. A template instantiation that
  the compiler rejects is the value \<open>Inl\<close> of a fault. A fault at run time ends the run.
\<close>

subsection \<open>What the templates see of a class\<close>

type_synonym addr = nat

text \<open>\<open>ObjectStack&\<close>: the stack is passed in and the updated stack is returned.\<close>

type_synonym ObjectStack = "addr list"

text \<open>
  What the name of a hook denotes in \<open>T\<close>:
  \<^item> \<open>NotDeclared\<close>: \<open>T\<close> has no member of that name;
  \<^item> \<open>Unique c\<close>: exactly one member, not overloaded, not a template, and accessible
    from outside \<open>T\<close> (public, or \<open>T\<close> makes the helpers and \<open>VBase\<close> its friends);
  \<^item> \<open>Inaccessible\<close>: exactly one member, private or protected;
  \<^item> \<open>Overloaded c\<close>: a set of overloads (or a member template).

  In \<open>Unique c\<close> and \<open>Overloaded c\<close>, \<open>c\<close> is what the call expression written in the
  wrapper (\<open>((T*)o)->notified(o)\<close>, \<open>((T*)o)->finaliser(region, sub_regions)\<close>,
  \<open>((T*)o)->trace(st)\<close>) resolves to: \<open>Some f\<close> when the call is well-formed and runs
  \<open>f\<close>, \<open>None\<close> when no declared member accepts these arguments (the wrong shape).
\<close>

datatype 'f member = NotDeclared | Unique "'f option" | Inaccessible | Overloaded "'f option"

text \<open>
  \<open>decltype(&T::name)\<close> (lines 28 and 35) is well-formed exactly for a unique accessible
  member: the address of an overload set has no type without a target, a name that is
  not declared has no address, and the access of the name is checked where the helper
  stands, outside \<open>T\<close>. Inside \<open>std::void_t\<close> an ill-formed operand only removes the
  partial specialisation, so that the primary template (\<open>std::false_type\<close>) is chosen.
\<close>

definition addressable :: "'f member \<Rightarrow> bool" where
  "addressable m =
     (case m of
        NotDeclared \<Rightarrow> False
      | Unique c \<Rightarrow> True
      | Inaccessible \<Rightarrow> False
      | Overloaded c \<Rightarrow> False)"

text \<open>
  The function that a call through the name reaches from a wrapper of \<open>VBase\<close>, if the
  call is well-formed.
\<close>

definition call_target :: "'f member \<Rightarrow> 'f option" where
  "call_target m =
     (case m of
        NotDeclared \<Rightarrow> None
      | Unique c \<Rightarrow> c
      | Inaccessible \<Rightarrow> None
      | Overloaded c \<Rightarrow> c)"

definition declared :: "'f member \<Rightarrow> bool" where
  "declared m =
     (case m of
        NotDeclared \<Rightarrow> False
      | Unique c \<Rightarrow> True
      | Inaccessible \<Rightarrow> True
      | Overloaded c \<Rightarrow> True)"

text \<open>
  The bodies of the methods of \<open>T\<close> act on a program state \<open>'w\<close> that this header knows
  nothing about. The first argument is \<open>this\<close>.
\<close>

type_synonym 'w trace_method = "addr \<Rightarrow> ObjectStack \<Rightarrow> 'w \<Rightarrow> ObjectStack \<times> 'w"
type_synonym 'w finaliser_method = "addr \<Rightarrow> addr \<Rightarrow> ObjectStack \<Rightarrow> 'w \<Rightarrow> ObjectStack \<times> 'w"
type_synonym 'w notified_method = "addr \<Rightarrow> addr \<Rightarrow> 'w \<Rightarrow> 'w"

text \<open>
  The destructor \<open>~T()\<close>: either trivial, and then it does nothing, or not, and then it
  runs the given teardown.
\<close>

datatype 'w teardown = Trivial | NonTrivial "addr \<Rightarrow> 'w \<Rightarrow> 'w"

text \<open>
  The declarations of \<open>operator new\<close>, \<open>operator new[]\<close>, \<open>operator delete\<close> and
  \<open>operator delete[]\<close>: the name, the parameter types, and whether the function is
  defined as deleted.
\<close>

datatype op_name = OpNew | OpNewArray | OpDelete | OpDeleteArray

datatype param = P_size_t | P_void_ptr | P_Alloc_ref | P_Object_ptr | P_RegionType

record op_decl =
  op :: op_name
  params :: "param list"
  deleted :: bool

text \<open>
  \<open>vsizeof<T>\<close> is declared outside this header; it is taken as a fact about the class,
  like \<open>sizeof(T)\<close>. The class name stands for the identity of the type. \<open>m_ops\<close> are
  the allocation and deallocation functions that \<open>T\<close> declares itself.
\<close>

record 'w cpp_class =
  tname :: string
  sizeof :: nat
  vsizeof :: nat
  m_trace :: "'w trace_method member"
  m_finaliser :: "'w finaliser_method member"
  m_notified :: "'w notified_method member"
  destructor :: "'w teardown"
  m_ops :: "op_decl list"

subsection \<open>The detection helpers (lines 24 to 42)\<close>

definition has_notified :: "'w cpp_class \<Rightarrow> bool" where
  "has_notified T = addressable (m_notified T)"

definition has_finaliser :: "'w cpp_class \<Rightarrow> bool" where
  "has_finaliser T = addressable (m_finaliser T)"

definition is_trivially_destructible :: "'w cpp_class \<Rightarrow> bool" where
  "is_trivially_destructible T = (case destructor T of Trivial \<Rightarrow> True | NonTrivial f \<Rightarrow> False)"

definition has_destructor :: "'w cpp_class \<Rightarrow> bool" where
  "has_destructor T = (\<not> is_trivially_destructible T)"

subsection \<open>The wrappers of \<open>VBase\<close> (lines 52 to 84)\<close>

datatype fault =
    IllFormedCall string
  | DeletedFunction
  | NoViableFunction
  | AssertionFailed
  | AllocationFailed
  | InvalidDescriptor
  | ForeignFunction

text \<open>Line 84: the \<open>trace\<close> that a class inherits when it declares none.\<close>

definition VBase_trace :: "'w trace_method" where
  "VBase_trace this st w = (st, w)"

text \<open>
  Lines 52 to 55. The member \<open>trace\<close> is looked up in \<open>T\<close>: a declaration in \<open>T\<close> hides
  the one of \<open>VBase\<close>, also when \<open>VBase\<close> may not call it.
\<close>

definition gc_trace :: "'w cpp_class \<Rightarrow> fault + 'w trace_method" where
  "gc_trace T =
     (case m_trace T of
        NotDeclared \<Rightarrow> Inr VBase_trace
      | Unique c \<Rightarrow> (case c of None \<Rightarrow> Inl (IllFormedCall ''trace'') | Some f \<Rightarrow> Inr f)
      | Inaccessible \<Rightarrow> Inl (IllFormedCall ''trace'')
      | Overloaded c \<Rightarrow> (case c of None \<Rightarrow> Inl (IllFormedCall ''trace'') | Some f \<Rightarrow> Inr f))"

text \<open>
  Lines 57 to 65. Only the branch that \<open>if constexpr\<close> keeps is instantiated; the
  other one is discarded and cannot fail.
\<close>

definition gc_notified :: "'w cpp_class \<Rightarrow> fault + (addr \<Rightarrow> 'w \<Rightarrow> 'w)" where
  "gc_notified T =
     (if has_notified T then
        (case call_target (m_notified T) of
           None \<Rightarrow> Inl (IllFormedCall ''notified'')
         | Some f \<Rightarrow> Inr (\<lambda>obj. f obj obj))
      else Inr (\<lambda>obj w. w))"

text \<open>Lines 67 to 77.\<close>

definition gc_final :: "'w cpp_class \<Rightarrow> fault + (addr \<Rightarrow> addr \<Rightarrow> ObjectStack \<Rightarrow> 'w \<Rightarrow> ObjectStack \<times> 'w)" where
  "gc_final T =
     (if has_finaliser T then
        (case call_target (m_finaliser T) of
           None \<Rightarrow> Inl (IllFormedCall ''finaliser'')
         | Some f \<Rightarrow> Inr (\<lambda>obj region sub_regions. f obj region sub_regions))
      else Inr (\<lambda>obj region sub_regions w. (sub_regions, w)))"

text \<open>One run of the destructor of \<open>T\<close> on an object: the call \<open>->~T()\<close>.\<close>

definition run_destructor :: "'w cpp_class \<Rightarrow> addr \<Rightarrow> 'w \<Rightarrow> 'w" where
  "run_destructor T obj w = (case destructor T of Trivial \<Rightarrow> w | NonTrivial f \<Rightarrow> f obj w)"

text \<open>Lines 79 to 82.\<close>

definition gc_destructor :: "'w cpp_class \<Rightarrow> addr \<Rightarrow> 'w \<Rightarrow> 'w" where
  "gc_destructor T obj w = run_destructor T obj w"

subsection \<open>The descriptor (lines 89 to 99)\<close>

text \<open>
  Modelled from the spec: the struct \<open>Descriptor\<close> is declared outside this header. Its
  five fields (\<open>{size, trace_fn, finalize_fn?, notify_fn?, destroy_fn?}\<close>) are taken in
  the order of the initialiser of lines 91 to 96; a function pointer is an optional
  function, the null pointer is \<open>None\<close>.
\<close>

record 'w Descriptor =
  desc_size :: nat
  trace_fn :: "'w trace_method option"
  finalize_fn :: "(addr \<Rightarrow> addr \<Rightarrow> ObjectStack \<Rightarrow> 'w \<Rightarrow> ObjectStack \<times> 'w) option"
  notify_fn :: "(addr \<Rightarrow> 'w \<Rightarrow> 'w) option"
  destroy_fn :: "(addr \<Rightarrow> 'w \<Rightarrow> 'w) option"

text \<open>
  The initialiser names all four wrappers, so all four are instantiated, whatever the
  conditions of the three conditional expressions are.
\<close>

definition desc_init :: "'w cpp_class \<Rightarrow> fault + 'w Descriptor" where
  "desc_init T =
     (case gc_trace T of
        Inl e \<Rightarrow> Inl e
      | Inr tr \<Rightarrow>
          (case gc_final T of
             Inl e \<Rightarrow> Inl e
           | Inr fin \<Rightarrow>
               (case gc_notified T of
                  Inl e \<Rightarrow> Inl e
                | Inr noti \<Rightarrow>
                    Inr \<lparr> desc_size = vsizeof T,
                          trace_fn = Some tr,
                          finalize_fn = (if has_finaliser T then Some fin else None),
                          notify_fn = (if has_notified T then Some noti else None),
                          destroy_fn = (if has_destructor T then Some (gc_destructor T) else None) \<rparr>)))"

subsection \<open>The runtime state\<close>

text \<open>
  \<open>VBase<T, Base>\<close> is instantiated with \<open>Object\<close> by \<open>V<T>\<close> (line 154) and with \<open>Cown\<close> by
  \<open>VCown<T>\<close> (line 176). Each instantiation has its own function \<open>desc()\<close> and with it its
  own function-local static, whose address is the descriptor pointer that \<open>desc()\<close>
  returns.
\<close>

datatype Base = Object | Cown

datatype desc_ptr = DescOf string Base

text \<open>
  Modelled from the spec: the types \<open>Alloc\<close> and \<open>RegionType\<close> are declared outside this
  header. An allocator is known by its identity only (``which allocator/arena to draw
  from''), a region kind is a value that ``selects among isolation strategies''.
\<close>

datatype Alloc = Alloc nat

datatype RegionType = RegionType nat

text \<open>
  The state holds the function-local statics that have been initialised so far
  (\<open>statics\<close>), the bookkeeping of the region and allocator code, and the program state
  \<open>world\<close> on which the methods of the user classes act.
\<close>

text \<open>
  Modelled from the spec: the region, object and allocator code is not in this header.
  Of its state the model keeps what the specification names: the raw memory handed out
  by an allocator (\<open>brk\<close>: the next free address; \<open>limit\<close>: the end of the memory that
  can be handed out; \<open>blocks\<close>: base address to size and allocator), the descriptor
  every object is registered against (\<open>tags\<close>), the region an object belongs to
  (\<open>region_of\<close>: object to root), the kind of the region of a root (\<open>region_kind\<close>), the
  ambient region (\<open>current_region\<close>) and the allocator of the calling thread
  (\<open>thread_alloc\<close>, what \<open>ThreadAlloc::get()\<close> returns).
\<close>

record 'w runtime =
  statics :: "desc_ptr \<rightharpoonup> 'w Descriptor"
  brk :: addr
  limit :: addr
  blocks :: "addr \<rightharpoonup> nat \<times> Alloc"
  tags :: "addr \<rightharpoonup> desc_ptr"
  region_of :: "addr \<rightharpoonup> addr"
  region_kind :: "addr \<rightharpoonup> RegionType"
  current_region :: "addr option"
  thread_alloc :: Alloc
  world :: 'w

text \<open>
  What the build fixes: whether \<open>NDEBUG\<close> is defined, which turns \<open>assert\<close> into nothing,
  and the size of the object header, by which \<open>register_object\<close> advances the pointer
  (the comment of lines 205 and 206).
\<close>

record build =
  NDEBUG :: bool
  header_size :: nat

subsection \<open>The collaborators\<close>

text \<open>
  Modelled from the spec: \<open>alloc\<close> of an allocator (\<open>thread_local_allocate(size) -> memory\<close>,
  \<open>explicit_allocate(allocator, size) -> memory\<close>) returns fresh memory of the requested
  size, or fails at once when the request cannot be satisfied (``allocation is
  immediate success or immediate failure'', ``no partial object is ever returned'').
\<close>

definition alloc :: "Alloc \<Rightarrow> nat \<Rightarrow> 'w runtime \<Rightarrow> fault + addr \<times> 'w runtime" where
  "alloc a n s =
     (if brk s + n \<le> limit s
      then Inr (brk s, s\<lparr> brk := brk s + n, blocks := (blocks s)(brk s \<mapsto> (n, a)) \<rparr>)
      else Inl AllocationFailed)"

text \<open>
  Modelled from the spec: \<open>Object::register_object\<close>
  (\<open>register_object(memory, descriptor) -> handle\<close>) registers the memory against the
  descriptor; the pointer it returns is the one of the allocator advanced by the header.
\<close>

definition register_object :: "build \<Rightarrow> addr \<Rightarrow> desc_ptr \<Rightarrow> 'w runtime \<Rightarrow> addr \<times> 'w runtime" where
  "register_object b base d s =
     (base + header_size b, s\<lparr> tags := (tags s)(base + header_size b \<mapsto> d) \<rparr>)"

text \<open>
  Modelled from the spec: \<open>api::create_object\<close> (\<open>create_object(descriptor) -> memory\<close>)
  requests memory of the size the descriptor gives from the ambient region context and
  registers it against the descriptor; it ``fails with an allocation failure if the
  underlying allocator cannot satisfy the request''.
\<close>

definition create_object :: "build \<Rightarrow> desc_ptr \<Rightarrow> 'w runtime \<Rightarrow> fault + addr \<times> 'w runtime" where
  "create_object b d s =
     (case statics s d of
        None \<Rightarrow> Inl InvalidDescriptor
      | Some D \<Rightarrow>
          (case alloc (thread_alloc s) (desc_size D) s of
             Inl e \<Rightarrow> Inl e
           | Inr (base, s1) \<Rightarrow>
               (case register_object b base d s1 of
                  (obj, s2) \<Rightarrow>
                    Inr (obj, s2\<lparr> region_of :=
                                 (case current_region s2 of
                                    None \<Rightarrow> region_of s2
                                  | Some r \<Rightarrow> (region_of s2)(obj \<mapsto> r)) \<rparr>))))"

text \<open>
  Modelled from the spec: \<open>api::create_fresh_region\<close>
  (\<open>create_fresh_region(kind, descriptor) -> memory\<close>) creates a new region of the
  given kind with the new object as its root, or fails like \<open>create_object\<close>.
\<close>

definition create_fresh_region ::
  "build \<Rightarrow> RegionType \<Rightarrow> desc_ptr \<Rightarrow> 'w runtime \<Rightarrow> fault + addr \<times> 'w runtime" where
  "create_fresh_region b rt d s =
     (case statics s d of
        None \<Rightarrow> Inl InvalidDescriptor
      | Some D \<Rightarrow>
          (case alloc (thread_alloc s) (desc_size D) s of
             Inl e \<Rightarrow> Inl e
           | Inr (base, s1) \<Rightarrow>
               (case register_object b base d s1 of
                  (obj, s2) \<Rightarrow>
                    Inr (obj, s2\<lparr> region_of := (region_of s2)(obj \<mapsto> obj),
                                  region_kind := (region_kind s2)(obj \<mapsto> rt) \<rparr>))))"

subsection \<open>\<open>VBase::desc\<close> at run time (lines 89 to 99)\<close>

text \<open>
  The static is initialised when control first passes through its declaration and never
  again; every call returns its address. A class for which the initialiser does not
  compile has no \<open>desc()\<close>.
\<close>

definition desc :: "'w cpp_class \<Rightarrow> Base \<Rightarrow> 'w runtime \<Rightarrow> fault + desc_ptr \<times> 'w runtime" where
  "desc T B s =
     (case desc_init T of
        Inl e \<Rightarrow> Inl e
      | Inr D \<Rightarrow>
          (case statics s (DescOf (tname T) B) of
             Some D0 \<Rightarrow> Inr (DescOf (tname T) B, s)
           | None \<Rightarrow> Inr (DescOf (tname T) B, s\<lparr> statics := (statics s)(DescOf (tname T) B \<mapsto> D) \<rparr>)))"

subsection \<open>\<open>operator delete\<close> of \<open>VBase\<close> (lines 101 to 141)\<close>

text \<open>The six bodies are empty. The arguments are the ones of the six signatures.\<close>

datatype delete_args =
    Delete addr
  | DeleteSized addr nat
  | DeleteAlloc addr Alloc
  | DeleteObject addr addr
  | DeleteAllocObject addr Alloc addr
  | DeleteRegion addr RegionType

fun operator_delete :: "delete_args \<Rightarrow> 'w runtime \<Rightarrow> 'w runtime" where
  "operator_delete (Delete p) s = s"
| "operator_delete (DeleteSized p n) s = s"
| "operator_delete (DeleteAlloc p a) s = s"
| "operator_delete (DeleteObject p obj) s = s"
| "operator_delete (DeleteAllocObject p a obj) s = s"
| "operator_delete (DeleteRegion p rt) s = s"

subsection \<open>\<open>operator new\<close> of \<open>V\<close> (lines 159 to 167)\<close>

text \<open>
  The first parameter, the size that the new-expression passes, has no name and no use.
  The template argument of \<open>create_fresh_region<V>\<close>, the adapter itself, has no
  counterpart in the \<open>create_fresh_region(kind, descriptor)\<close> of the specification.
\<close>

definition V_operator_new ::
  "build \<Rightarrow> 'w cpp_class \<Rightarrow> nat \<Rightarrow> 'w runtime \<Rightarrow> fault + addr \<times> 'w runtime" where
  "V_operator_new b T sz s =
     (case desc T Object s of
        Inl e \<Rightarrow> Inl e
      | Inr (d, s1) \<Rightarrow> create_object b d s1)"

definition V_operator_new_region ::
  "build \<Rightarrow> 'w cpp_class \<Rightarrow> nat \<Rightarrow> RegionType \<Rightarrow> 'w runtime \<Rightarrow> fault + addr \<times> 'w runtime" where
  "V_operator_new_region b T sz rt s =
     (case desc T Object s of
        Inl e \<Rightarrow> Inl e
      | Inr (d, s1) \<Rightarrow> create_fresh_region b rt d s1)"

subsection \<open>\<open>operator new\<close> of \<open>VCown\<close> (lines 181 to 209)\<close>

text \<open>
  The two arguments of \<open>register_object\<close> are evaluated in an order the language leaves
  open. \<open>desc()\<close> writes only the static and the allocator only its own bookkeeping, so
  that the order makes no difference to what is returned; the model evaluates \<open>desc()\<close>
  first.
\<close>

definition VCown_operator_new ::
  "build \<Rightarrow> 'w cpp_class \<Rightarrow> nat \<Rightarrow> 'w runtime \<Rightarrow> fault + addr \<times> 'w runtime" where
  "VCown_operator_new b T sz s =
     (case desc T Cown s of
        Inl e \<Rightarrow> Inl e
      | Inr (d, s1) \<Rightarrow>
          (case alloc (thread_alloc s1) (vsizeof T) s1 of
             Inl e \<Rightarrow> Inl e
           | Inr (m, s2) \<Rightarrow> Inr (register_object b m d s2)))"

definition VCown_operator_new_alloc ::
  "build \<Rightarrow> 'w cpp_class \<Rightarrow> nat \<Rightarrow> Alloc \<Rightarrow> 'w runtime \<Rightarrow> fault + addr \<times> 'w runtime" where
  "VCown_operator_new_alloc b T sz a s =
     (case desc T Cown s of
        Inl e \<Rightarrow> Inl e
      | Inr (d, s1) \<Rightarrow>
          (case alloc a (vsizeof T) s1 of
             Inl e \<Rightarrow> Inl e
           | Inr (m, s2) \<Rightarrow> Inr (register_object b m d s2)))"

text \<open>
  Lines 201 to 209. \<open>assert\<close> aborts the program when its condition is false, unless
  \<open>NDEBUG\<close> is defined: then it expands to nothing.
\<close>

definition VCown_operator_new_sized ::
  "build \<Rightarrow> 'w cpp_class \<Rightarrow> nat \<Rightarrow> nat \<Rightarrow> 'w runtime \<Rightarrow> fault + addr \<times> 'w runtime" where
  "VCown_operator_new_sized b T base_size req_size s =
     (if \<not> NDEBUG b \<and> \<not> (req_size \<ge> base_size) then Inl AssertionFailed
      else
        (case desc T Cown s of
           Inl e \<Rightarrow> Inl e
         | Inr (d, s1) \<Rightarrow>
             (case alloc (thread_alloc s1) req_size s1 of
                Inl e \<Rightarrow> Inl e
              | Inr (m, s2) \<Rightarrow> Inr (register_object b m d s2))))"

subsection \<open>The allocation and deallocation functions an expression selects\<close>

text \<open>Lines 101 to 145: the declarations of \<open>VBase\<close>.\<close>

definition VBase_ops :: "op_decl list" where
  "VBase_ops =
     [\<lparr> op = OpDelete, params = [P_void_ptr], deleted = False \<rparr>,
      \<lparr> op = OpDelete, params = [P_void_ptr, P_size_t], deleted = False \<rparr>,
      \<lparr> op = OpDelete, params = [P_void_ptr, P_Alloc_ref], deleted = False \<rparr>,
      \<lparr> op = OpDelete, params = [P_void_ptr, P_Object_ptr], deleted = False \<rparr>,
      \<lparr> op = OpDelete, params = [P_void_ptr, P_Alloc_ref, P_Object_ptr], deleted = False \<rparr>,
      \<lparr> op = OpDelete, params = [P_void_ptr, P_RegionType], deleted = False \<rparr>,
      \<lparr> op = OpNewArray, params = [P_size_t], deleted = True \<rparr>,
      \<lparr> op = OpDeleteArray, params = [P_void_ptr], deleted = True \<rparr>,
      \<lparr> op = OpDeleteArray, params = [P_void_ptr, P_size_t], deleted = True \<rparr>]"

text \<open>Lines 159 to 167 for \<open>V\<close>, lines 181 to 209 for \<open>VCown\<close>.\<close>

fun adapter_ops :: "Base \<Rightarrow> op_decl list" where
  "adapter_ops Object =
     [\<lparr> op = OpNew, params = [P_size_t], deleted = False \<rparr>,
      \<lparr> op = OpNew, params = [P_size_t, P_RegionType], deleted = False \<rparr>]"
| "adapter_ops Cown =
     [\<lparr> op = OpNew, params = [P_size_t], deleted = False \<rparr>,
      \<lparr> op = OpNew, params = [P_size_t, P_Alloc_ref], deleted = False \<rparr>,
      \<lparr> op = OpNew, params = [P_size_t, P_size_t], deleted = False \<rparr>]"

text \<open>
  The functions of the global scope, which \<open><new>\<close> (line 7) declares: the allocation and
  deallocation functions for single objects and for arrays, and the two placement
  forms that take a pointer.
\<close>

definition global_ops :: "op_decl list" where
  "global_ops =
     [\<lparr> op = OpNew, params = [P_size_t], deleted = False \<rparr>,
      \<lparr> op = OpNew, params = [P_size_t, P_void_ptr], deleted = False \<rparr>,
      \<lparr> op = OpNewArray, params = [P_size_t], deleted = False \<rparr>,
      \<lparr> op = OpNewArray, params = [P_size_t, P_void_ptr], deleted = False \<rparr>,
      \<lparr> op = OpDelete, params = [P_void_ptr], deleted = False \<rparr>,
      \<lparr> op = OpDelete, params = [P_void_ptr, P_size_t], deleted = False \<rparr>,
      \<lparr> op = OpDeleteArray, params = [P_void_ptr], deleted = False \<rparr>,
      \<lparr> op = OpDeleteArray, params = [P_void_ptr, P_size_t], deleted = False \<rparr>]"

datatype scope = OfClass | OfAdapter | OfVBase | OfGlobal

definition named :: "op_name \<Rightarrow> op_decl list \<Rightarrow> op_decl list" where
  "named n ds = filter (\<lambda>d. op d = n) ds"

text \<open>
  Lookup of the name for an expression on \<open>T\<close>. With the prefix \<open>::\<close> (\<open>::new\<close>,
  \<open>::delete\<close>) only the global scope is searched. Without it the search starts in \<open>T\<close>
  and goes on to the adapter, to \<open>VBase\<close> and to the global scope; it stops at the first
  scope that declares the name, whose declarations hide those of the scopes behind it.
  (\<open>Object\<close> and \<open>Cown\<close> stand between \<open>VBase\<close> and the global scope. They are not in
  this header, and for each of the four names the search stops before it reaches them.)
\<close>

definition lookup_op :: "'w cpp_class \<Rightarrow> Base \<Rightarrow> bool \<Rightarrow> op_name \<Rightarrow> scope \<times> op_decl list" where
  "lookup_op T B global n =
     (if global then (OfGlobal, named n global_ops)
      else if named n (m_ops T) \<noteq> [] then (OfClass, named n (m_ops T))
      else if named n (adapter_ops B) \<noteq> [] then (OfAdapter, named n (adapter_ops B))
      else if named n VBase_ops \<noteq> [] then (OfVBase, named n VBase_ops)
      else (OfGlobal, named n global_ops))"

text \<open>
  The function that an expression selects among these for a list of argument types. The
  build fails when none accepts the arguments and when the selected one is deleted.
\<close>

definition resolve ::
  "'w cpp_class \<Rightarrow> Base \<Rightarrow> bool \<Rightarrow> op_name \<Rightarrow> param list \<Rightarrow> fault + scope \<times> op_decl" where
  "resolve T B global n args =
     (case lookup_op T B global n of
        (sc, ds) \<Rightarrow>
          (case filter (\<lambda>d. params d = args) ds of
             [] \<Rightarrow> Inl NoViableFunction
           | d # ds' \<Rightarrow> if deleted d then Inl DeletedFunction else Inr (sc, d)))"

subsection \<open>The delete-expression\<close>

text \<open>
  \<open>delete p\<close>, for a pointer \<open>p\<close> to an object of class \<open>T\<close> that is not null: the
  expression runs the destructor of \<open>T\<close> on the object and then calls the deallocation
  function that the lookup selects. When this is the \<open>operator delete(void*)\<close> of
  \<open>VBase\<close> (line 101), the call does nothing. A function that \<open>T\<close> declares itself is
  not of this header.
\<close>

definition delete_expression ::
  "'w cpp_class \<Rightarrow> Base \<Rightarrow> addr \<Rightarrow> 'w runtime \<Rightarrow> fault + 'w runtime" where
  "delete_expression T B p s =
     (case resolve T B False OpDelete [P_void_ptr] of
        Inl e \<Rightarrow> Inl e
      | Inr (sc, d) \<Rightarrow>
          (case sc of
             OfVBase \<Rightarrow> Inr (operator_delete (Delete p) (s\<lparr> world := run_destructor T p (world s) \<rparr>))
           | OfClass \<Rightarrow> Inl ForeignFunction
           | OfAdapter \<Rightarrow> Inl ForeignFunction
           | OfGlobal \<Rightarrow> Inl ForeignFunction))"

subsection \<open>The calls of this layer\<close>

text \<open>
  Every function of the header that runs at run time, with its arguments: \<open>desc()\<close>, the
  five allocation functions, the six deallocation functions and the four wrappers that
  a descriptor points to; and the delete-expression, through which a program reaches
  the first deallocation function. \<open>exec\<close> runs one call, \<open>run\<close> a sequence of them,
  stopping at the first fault.
\<close>

datatype 'w call =
    CallDesc "'w cpp_class" Base
  | NewV "'w cpp_class" nat
  | NewVRegion "'w cpp_class" nat RegionType
  | NewCown "'w cpp_class" nat
  | NewCownAlloc "'w cpp_class" nat Alloc
  | NewCownSized "'w cpp_class" nat nat
  | CallDelete delete_args
  | DeleteExpr "'w cpp_class" Base addr
  | GcTrace "'w cpp_class" addr ObjectStack
  | GcFinal "'w cpp_class" addr addr ObjectStack
  | GcNotified "'w cpp_class" addr
  | GcDestructor "'w cpp_class" addr

definition after :: "fault + 'a \<times> 'w runtime \<Rightarrow> fault + 'w runtime" where
  "after r = (case r of Inl e \<Rightarrow> Inl e | Inr (x, s) \<Rightarrow> Inr s)"

fun exec :: "build \<Rightarrow> 'w call \<Rightarrow> 'w runtime \<Rightarrow> fault + 'w runtime" where
  "exec b (CallDesc T B) s = after (desc T B s)"
| "exec b (NewV T sz) s = after (V_operator_new b T sz s)"
| "exec b (NewVRegion T sz rt) s = after (V_operator_new_region b T sz rt s)"
| "exec b (NewCown T sz) s = after (VCown_operator_new b T sz s)"
| "exec b (NewCownAlloc T sz a) s = after (VCown_operator_new_alloc b T sz a s)"
| "exec b (NewCownSized T base_size req_size) s =
     after (VCown_operator_new_sized b T base_size req_size s)"
| "exec b (CallDelete args) s = Inr (operator_delete args s)"
| "exec b (DeleteExpr T B p) s = delete_expression T B p s"
| "exec b (GcTrace T obj st) s =
     (case gc_trace T of
        Inl e \<Rightarrow> Inl e
      | Inr f \<Rightarrow> Inr (s\<lparr> world := snd (f obj st (world s)) \<rparr>))"
| "exec b (GcFinal T obj region sub_regions) s =
     (case gc_final T of
        Inl e \<Rightarrow> Inl e
      | Inr f \<Rightarrow> Inr (s\<lparr> world := snd (f obj region sub_regions (world s)) \<rparr>))"
| "exec b (GcNotified T obj) s =
     (case gc_notified T of
        Inl e \<Rightarrow> Inl e
      | Inr f \<Rightarrow> Inr (s\<lparr> world := f obj (world s) \<rparr>))"
| "exec b (GcDestructor T obj) s = Inr (s\<lparr> world := gc_destructor T obj (world s) \<rparr>)"

fun run :: "build \<Rightarrow> 'w call list \<Rightarrow> 'w runtime \<Rightarrow> fault + 'w runtime" where
  "run b [] s = Inr s"
| "run b (c # cs) s = (case exec b c s of Inl e \<Rightarrow> Inl e | Inr s1 \<Rightarrow> run b cs s1)"



text \<open>The state without the \<open>destroy_fn\<close> of the descriptors it holds.\<close>

definition without_destroy_fn :: "'w runtime \<Rightarrow> 'w runtime" where
  "without_destroy_fn s =
     s\<lparr> statics := (\<lambda>p. map_option (\<lambda>D. D\<lparr> destroy_fn := None \<rparr>) (statics s p)) \<rparr>"

text \<open>
  Whether the first \<open>n\<close> bytes at \<open>p\<close> lie inside the block that the allocator handed out
  at \<open>base\<close>.
\<close>

definition inside_block :: "'w runtime \<Rightarrow> addr \<Rightarrow> addr \<Rightarrow> nat \<Rightarrow> bool" where
  "inside_block s base p n =
     (case blocks s base of
        None \<Rightarrow> False
      | Some (sz, a) \<Rightarrow> base \<le> p \<and> p + n \<le> base + sz)"

subsection \<open>Example classes\<close>

text \<open>The program state of the examples is the list of the calls the methods received.\<close>

datatype event =
    Traced addr
  | Finalised addr addr ObjectStack
  | Notified addr addr
  | NotifiedInt addr
  | Destroyed addr

text \<open>No outgoing references, no hooks, a trivial destructor.\<close>

definition Leaf :: "event list cpp_class" where
  "Leaf = \<lparr> tname = ''Leaf'', sizeof = 16, vsizeof = 32,
            m_trace = NotDeclared, m_finaliser = NotDeclared, m_notified = NotDeclared,
            destructor = Trivial, m_ops = [] \<rparr>"

text \<open>One outgoing reference, stored behind the object; both hooks; a destructor.\<close>

definition Node :: "event list cpp_class" where
  "Node = \<lparr> tname = ''Node'', sizeof = 24, vsizeof = 40,
            m_trace = Unique (Some (\<lambda>this st w. ((this + 100) # st, w @ [Traced this]))),
            m_finaliser = Unique (Some (\<lambda>this region sub w. (sub, w @ [Finalised this region sub]))),
            m_notified = Unique (Some (\<lambda>this obj w. w @ [Notified this obj])),
            destructor = NonTrivial (\<lambda>this w. w @ [Destroyed this]), m_ops = [] \<rparr>"

text \<open>
  Two members named \<open>notified\<close>, \<open>void notified(Object*)\<close> and \<open>void notified(int)\<close>, and
  two members named \<open>finaliser\<close>, one of them of the shape the wrapper calls.
\<close>

definition Twice :: "event list cpp_class" where
  "Twice = \<lparr> tname = ''Twice'', sizeof = 24, vsizeof = 40,
            m_trace = NotDeclared,
            m_finaliser = Overloaded (Some (\<lambda>this region sub w. (sub, w @ [Finalised this region sub]))),
            m_notified = Overloaded (Some (\<lambda>this obj w. w @ [Notified this obj])),
            destructor = Trivial, m_ops = [] \<rparr>"

text \<open>
  Two members named \<open>notified\<close>, \<open>void notified(int)\<close> and \<open>void notified(int, int)\<close>:
  neither can be called with an \<open>Object*\<close>.
\<close>

definition Misfit :: "event list cpp_class" where
  "Misfit = \<lparr> tname = ''Misfit'', sizeof = 24, vsizeof = 40,
            m_trace = NotDeclared, m_finaliser = NotDeclared,
            m_notified = Overloaded None,
            destructor = Trivial, m_ops = [] \<rparr>"

text \<open>One member named \<open>notified\<close>, \<open>void notified(int)\<close>.\<close>

definition Wrong :: "event list cpp_class" where
  "Wrong = \<lparr> tname = ''Wrong'', sizeof = 24, vsizeof = 40,
            m_trace = NotDeclared, m_finaliser = NotDeclared,
            m_notified = Unique None,
            destructor = Trivial, m_ops = [] \<rparr>"

text \<open>One member named \<open>notified\<close>, private.\<close>

definition Shy :: "event list cpp_class" where
  "Shy = \<lparr> tname = ''Shy'', sizeof = 24, vsizeof = 40,
            m_trace = NotDeclared, m_finaliser = NotDeclared,
            m_notified = Inaccessible,
            destructor = Trivial, m_ops = [] \<rparr>"

text \<open>A class that declares \<open>operator new[](size_t)\<close> and \<open>operator delete[](void*)\<close> itself.\<close>

definition Pool :: "event list cpp_class" where
  "Pool = \<lparr> tname = ''Pool'', sizeof = 16, vsizeof = 32,
            m_trace = NotDeclared, m_finaliser = NotDeclared, m_notified = NotDeclared,
            destructor = Trivial,
            m_ops = [\<lparr> op = OpNewArray, params = [P_size_t], deleted = False \<rparr>,
                     \<lparr> op = OpDeleteArray, params = [P_void_ptr], deleted = False \<rparr>] \<rparr>"

definition start :: "event list runtime" where
  "start = \<lparr> statics = Map.empty, brk = 0, limit = 4096, blocks = Map.empty,
             tags = Map.empty, region_of = Map.empty, region_kind = Map.empty,
             current_region = None, thread_alloc = Alloc 0, world = [] \<rparr>"

text \<open>The same state with no memory left.\<close>

definition full :: "event list runtime" where
  "full = start\<lparr> limit := 0 \<rparr>"

definition debug_build :: build where
  "debug_build = \<lparr> NDEBUG = False, header_size = 16 \<rparr>"

definition release_build :: build where
  "release_build = \<lparr> NDEBUG = True, header_size = 16 \<rparr>"

text \<open>The descriptor of \<open>Leaf\<close>, written out.\<close>

definition leaf_desc :: "event list Descriptor" where
  "leaf_desc =
     \<lparr> desc_size = 32, trace_fn = Some VBase_trace, finalize_fn = None,
       notify_fn = None, destroy_fn = None \<rparr>"

text \<open>The state after the first \<open>desc()\<close> of \<open>V<Leaf>\<close>, and after three further calls.\<close>

definition leaf_built :: "event list runtime" where
  "leaf_built = start\<lparr> statics := [DescOf ''Leaf'' Object \<mapsto> leaf_desc] \<rparr>"

definition leaf_calls :: "event list call list" where
  "leaf_calls = [NewV Leaf 16, CallDelete (Delete 16), GcDestructor Node 16]"

definition leaf_after :: "event list runtime" where
  "leaf_after =
     leaf_built\<lparr> brk := 32, blocks := [0 \<mapsto> (32, Alloc 0)],
                 tags := [16 \<mapsto> DescOf ''Leaf'' Object], world := [Destroyed 16] \<rparr>"

text \<open>The descriptor of \<open>Node\<close>, written out.\<close>

definition node_desc :: "event list Descriptor" where
  "node_desc =
     \<lparr> desc_size = 40,
       trace_fn = Some (\<lambda>this st w. ((this + 100) # st, w @ [Traced this])),
       finalize_fn = Some (\<lambda>obj region sub w. (sub, w @ [Finalised obj region sub])),
       notify_fn = Some (\<lambda>obj w. w @ [Notified obj obj]),
       destroy_fn = Some (\<lambda>obj w. w @ [Destroyed obj]) \<rparr>"

text \<open>The state after \<open>new (RegionType 1) Node\<close> in the empty state.\<close>

definition node_root :: "event list runtime" where
  "node_root =
     start\<lparr> statics := [DescOf ''Node'' Object \<mapsto> node_desc], brk := 40,
            blocks := [0 \<mapsto> (40, Alloc 0)], tags := [16 \<mapsto> DescOf ''Node'' Object],
            region_of := [16 \<mapsto> 16], region_kind := [16 \<mapsto> RegionType 1] \<rparr>"

section \<open>Properties\<close>

subsection \<open>Auxiliary facts\<close>

lemmas probe_defs = has_finaliser_def has_notified_def has_destructor_def
  is_trivially_destructible_def addressable_def call_target_def

lemmas wrapper_defs = gc_trace_def gc_final_def gc_notified_def

lemma desc_init_Leaf: "desc_init Leaf = Inr leaf_desc"
  by (simp add: desc_init_def Leaf_def leaf_desc_def wrapper_defs probe_defs)

lemma desc_init_Node: "desc_init Node = Inr node_desc"
  by (simp add: desc_init_def Node_def node_desc_def wrapper_defs probe_defs
      gc_destructor_def run_destructor_def fun_eq_iff)

lemma Leaf_fields: "tname Leaf = ''Leaf''" "sizeof Leaf = 16" "vsizeof Leaf = 32"
  by (simp_all add: Leaf_def)

lemma Node_fields: "tname Node = ''Node''" "sizeof Node = 24" "vsizeof Node = 40"
  by (simp_all add: Node_def)

text \<open>
  A class with a single member of the wrong shape under a hook's name does not build.
\<close>

lemma desc_init_Wrong: "desc_init Wrong = Inl (IllFormedCall ''notified'')"
  by (simp add: desc_init_def Wrong_def wrapper_defs probe_defs)

text \<open>
  A private hook is not seen by the detection: the class builds and the hook is left out.
\<close>

lemma desc_init_Shy:
  "declared (m_notified Shy) \<and> \<not> has_notified Shy
   \<and> map_sum id notify_fn (desc_init Shy) = Inr None"
  by (simp add: desc_init_def Shy_def declared_def wrapper_defs probe_defs)

text \<open>
  For a hook that is a unique accessible member the detection holds, the wrapper passes
  the arguments on as they are, and the wrong shape stops the build.
\<close>

lemma unique_notified:
  assumes "m_notified T = Unique c"
  shows "has_notified T"
    and "desc_init T = Inr D \<Longrightarrow> \<exists>f. c = Some f \<and> notify_fn D = Some (\<lambda>obj. f obj obj)"
    and "c = None \<Longrightarrow> \<exists>e. desc_init T = Inl e"
  using assms
  by (auto simp: desc_init_def wrapper_defs probe_defs split: sum.splits option.splits)

lemma unique_finaliser:
  assumes "m_finaliser T = Unique c"
  shows "has_finaliser T"
    and "desc_init T = Inr D \<Longrightarrow> \<exists>f. c = Some f \<and> finalize_fn D = Some f"
    and "c = None \<Longrightarrow> \<exists>e. desc_init T = Inl e"
  using assms
  by (auto simp: desc_init_def wrapper_defs probe_defs fun_eq_iff
      split: sum.splits option.splits)

lemma undeclared_hooks:
  assumes "desc_init T = Inr D"
  shows "m_notified T = NotDeclared \<Longrightarrow> notify_fn D = None"
    and "m_finaliser T = NotDeclared \<Longrightarrow> finalize_fn D = None"
  using assms
  by (auto simp: desc_init_def wrapper_defs probe_defs split: sum.splits option.splits)

text \<open>
  What \<open>desc()\<close> returns and what it writes.
\<close>

lemma desc_ptr: "desc T B s = Inr (p, s1) \<Longrightarrow> p = DescOf (tname T) B"
  by (auto simp: desc_def split: sum.splits option.splits)

lemma desc_keeps: "desc T B s = Inr (p, s1) \<Longrightarrow> statics s q = Some D \<Longrightarrow> statics s1 q = Some D"
  by (auto simp: desc_def split: sum.splits option.splits)

lemma desc_initialised: "desc T B s = Inr (p, s1) \<Longrightarrow> \<exists>D. statics s1 p = Some D"
  by (auto simp: desc_def split: sum.splits option.splits)

lemma desc_first:
  "desc T B s = Inr (p, s1) \<Longrightarrow> statics s p = None \<Longrightarrow>
     \<exists>D. desc_init T = Inr D \<and> statics s1 p = Some D"
  by (auto simp: desc_def split: sum.splits option.splits)

lemma desc_again:
  "desc_init T = Inr D0 \<Longrightarrow> statics s (DescOf (tname T) B) = Some D \<Longrightarrow>
     desc T B s = Inr (DescOf (tname T) B, s)"
  by (auto simp: desc_def split: sum.splits option.splits)

lemma desc_init_size: "desc_init T = Inr D \<Longrightarrow> desc_size D = vsizeof T"
  by (auto simp: desc_init_def split: sum.splits)

lemma desc_builds: "desc T B s = Inr (p, s1) \<Longrightarrow> \<exists>D. desc_init T = Inr D"
  by (auto simp: desc_def split: sum.splits option.splits)

lemma desc_reach:
  assumes "desc_init T = Inr D"
  obtains s1 D1 where "desc T B s = Inr (DescOf (tname T) B, s1)"
    and "statics s1 (DescOf (tname T) B) = Some D1"
    and "statics s (DescOf (tname T) B) = Some D1 \<and> s1 = s
         \<or> statics s (DescOf (tname T) B) = None \<and> D1 = D
           \<and> s1 = s\<lparr> statics := (statics s)(DescOf (tname T) B \<mapsto> D) \<rparr>"
proof (cases "statics s (DescOf (tname T) B)")
  case None
  with assms that show ?thesis by (simp add: desc_def)
next
  case (Some D0)
  with assms that show ?thesis by (simp add: desc_def)
qed

text \<open>
  \<open>desc()\<close> and the allocator can be called in either order: the pointers and the final
  state are the same.
\<close>

lemma desc_alloc_commute:
  assumes "desc T B s = Inr (d, s1)" and "alloc a n s = Inr (m, s2)"
  shows "\<exists>s3. alloc a n s1 = Inr (m, s3) \<and> desc T B s2 = Inr (d, s3)"
    and "thread_alloc s1 = thread_alloc s"
  using assms
  by (auto simp: desc_def alloc_def split: sum.splits option.splits if_splits)

text \<open>
  The collaborators and the allocation functions do not write an initialised static.
\<close>

lemma alloc_statics: "alloc a n s = Inr (m, s1) \<Longrightarrow> statics s1 = statics s"
  by (auto simp: alloc_def split: if_splits)

lemma create_object_statics: "create_object b d s = Inr (p, s1) \<Longrightarrow> statics s1 = statics s"
  by (auto simp: create_object_def alloc_def register_object_def
      split: option.splits sum.splits if_splits)

lemma create_fresh_region_statics:
  "create_fresh_region b rt d s = Inr (p, s1) \<Longrightarrow> statics s1 = statics s"
  by (auto simp: create_fresh_region_def alloc_def register_object_def
      split: option.splits sum.splits if_splits)

lemma register_object_statics:
  "register_object b m d s = (p, s1) \<Longrightarrow> statics s1 = statics s"
  by (auto simp: register_object_def)

lemma cown_keeps:
  assumes "desc T Cown s = Inr (d, s0)" and "alloc a n s0 = Inr (m, s2)"
    and "register_object b m d s2 = (p, s1)" and "statics s q = Some D"
  shows "statics s1 q = Some D"
  using desc_keeps [OF assms(1) assms(4)] alloc_statics [OF assms(2)]
    register_object_statics [OF assms(3)] by simp

lemma VCown_operator_new_keeps:
  assumes "VCown_operator_new b T sz s = Inr (p, s1)" and "statics s q = Some D"
  shows "statics s1 q = Some D"
  using assms(1)
  by (auto simp: VCown_operator_new_def split: sum.splits intro: cown_keeps [OF _ _ _ assms(2)])

lemma VCown_operator_new_alloc_keeps:
  assumes "VCown_operator_new_alloc b T sz a s = Inr (p, s1)" and "statics s q = Some D"
  shows "statics s1 q = Some D"
  using assms(1)
  by (auto simp: VCown_operator_new_alloc_def split: sum.splits
      intro: cown_keeps [OF _ _ _ assms(2)])

lemma VCown_operator_new_sized_keeps:
  assumes "VCown_operator_new_sized b T base_size req_size s = Inr (p, s1)"
    and "statics s q = Some D"
  shows "statics s1 q = Some D"
  using assms(1)
  by (auto simp: VCown_operator_new_sized_def split: sum.splits if_splits
      intro: cown_keeps [OF _ _ _ assms(2)])

lemma V_operator_new_keeps:
  assumes "V_operator_new b T sz s = Inr (p, s1)" and "statics s q = Some D"
  shows "statics s1 q = Some D"
proof -
  from assms(1) obtain d s0 where d: "desc T Object s = Inr (d, s0)"
    and c: "create_object b d s0 = Inr (p, s1)"
    by (auto simp: V_operator_new_def split: sum.splits)
  show ?thesis using desc_keeps [OF d assms(2)] create_object_statics [OF c] by simp
qed

lemma V_operator_new_region_keeps:
  assumes "V_operator_new_region b T sz rt s = Inr (p, s1)" and "statics s q = Some D"
  shows "statics s1 q = Some D"
proof -
  from assms(1) obtain d s0 where d: "desc T Object s = Inr (d, s0)"
    and c: "create_fresh_region b rt d s0 = Inr (p, s1)"
    by (auto simp: V_operator_new_region_def split: sum.splits)
  show ?thesis using desc_keeps [OF d assms(2)] create_fresh_region_statics [OF c] by simp
qed

lemma after_Inr: "after r = Inr s1 \<Longrightarrow> \<exists>x. r = Inr (x, s1)"
  by (auto simp: after_def split: sum.splits)

text \<open>No call changes a static that has been initialised.\<close>

lemma exec_keeps:
  assumes "exec b c s = Inr s1" and "statics s q = Some D"
  shows "statics s1 q = Some D"
proof (cases c)
  case (CallDesc T B)
  with assms show ?thesis
    by (auto dest!: after_Inr dest: desc_keeps)
next
  case (NewV T sz)
  with assms show ?thesis
    by (auto dest!: after_Inr intro: V_operator_new_keeps)
next
  case (NewVRegion T sz rt)
  with assms show ?thesis
    by (auto dest!: after_Inr intro: V_operator_new_region_keeps)
next
  case (NewCown T sz)
  with assms show ?thesis
    by (auto dest!: after_Inr intro: VCown_operator_new_keeps)
next
  case (NewCownAlloc T sz a)
  with assms show ?thesis
    by (auto dest!: after_Inr intro: VCown_operator_new_alloc_keeps)
next
  case (NewCownSized T base_size req_size)
  with assms show ?thesis
    by (auto dest!: after_Inr intro: VCown_operator_new_sized_keeps)
next
  case (CallDelete args)
  with assms show ?thesis by (cases args) auto
next
  case (DeleteExpr T B p)
  with assms show ?thesis
    by (auto simp: delete_expression_def split: sum.splits scope.splits)
next
  case (GcTrace T obj st)
  with assms show ?thesis by (auto split: sum.splits)
next
  case (GcFinal T obj region sub_regions)
  with assms show ?thesis by (auto split: sum.splits)
next
  case (GcNotified T obj)
  with assms show ?thesis by (auto split: sum.splits)
next
  case (GcDestructor T obj)
  with assms show ?thesis by auto
qed

lemma run_keeps:
  "run b cs s = Inr s1 \<Longrightarrow> statics s q = Some D \<Longrightarrow> statics s1 q = Some D"
proof (induction cs arbitrary: s)
  case Nil
  then show ?case by simp
next
  case (Cons c cs)
  then show ?case by (auto split: sum.splits dest: exec_keeps)
qed

subsection \<open>One descriptor for each type\<close>

text \<open>
  Claim C1. After a call of \<open>desc()\<close> for a class, whatever calls of this layer follow,
  every further call of \<open>desc()\<close> for the class returns the same pointer and leaves the
  state as it is; the descriptor behind the pointer is the one that was there after
  the first call, field for field, and if the first call found the static
  uninitialised it is the one built from the class. The pointer is the address of the
  static of the instantiation: \<open>desc()\<close> of another class or of the other adapter
  returns another pointer.
\<close>

theorem desc_same_instance_and_immutable:
  assumes "desc T B s = Inr (p, s1)" and "run b cs s1 = Inr s2"
  shows "p = DescOf (tname T) B
       \<and> (\<exists>D. statics s1 p = Some D \<and> statics s2 p = Some D)
       \<and> (statics s p = None \<longrightarrow> (\<exists>D. desc_init T = Inr D \<and> statics s2 p = Some D))
       \<and> desc T B s2 = Inr (p, s2)
       \<and> (\<forall>T' B' p' s3. desc T' B' s2 = Inr (p', s3) \<longrightarrow>
            (p' = p \<longleftrightarrow> tname T' = tname T \<and> B' = B))"
proof -
  have p: "p = DescOf (tname T) B" using assms(1) by (rule desc_ptr)
  obtain D where D: "statics s1 p = Some D" using desc_initialised [OF assms(1)] by blast
  have D2: "statics s2 p = Some D" using run_keeps [OF assms(2) D] .
  obtain D0 where D0: "desc_init T = Inr D0" using desc_builds [OF assms(1)] by blast
  have again: "desc T B s2 = Inr (p, s2)" using desc_again [OF D0] D2 p by simp
  have first: "statics s p = None \<longrightarrow> (\<exists>D. desc_init T = Inr D \<and> statics s2 p = Some D)"
    using desc_first [OF assms(1)] run_keeps [OF assms(2)] by blast
  have other: "p' = p \<longleftrightarrow> tname T' = tname T \<and> B' = B"
    if "desc T' B' s2 = Inr (p', s3)" for T' :: "'a cpp_class" and B' p' s3
    using desc_ptr [OF that] p by simp
  show ?thesis using p D D2 again first other by blast
qed

text \<open>
  The theorem at \<open>V<Leaf>\<close>: the first \<open>desc()\<close> in the empty state, then an allocation, a
  deallocation and the destructor wrapper of another class.
\<close>

theorem desc_same_instance_and_immutable_witness:
  "desc Leaf Object start = Inr (DescOf ''Leaf'' Object, leaf_built)
   \<and> run debug_build leaf_calls leaf_built = Inr leaf_after
   \<and> desc Leaf Object leaf_after = Inr (DescOf ''Leaf'' Object, leaf_after)
   \<and> statics leaf_after (DescOf ''Leaf'' Object) = statics leaf_built (DescOf ''Leaf'' Object)"
proof -
  have h1: "desc Leaf Object start = Inr (DescOf ''Leaf'' Object, leaf_built)"
    by (simp add: desc_def desc_init_Leaf leaf_built_def) (simp add: Leaf_def start_def)
  have h2: "run debug_build leaf_calls leaf_built = Inr leaf_after"
    by (simp add: leaf_calls_def leaf_after_def leaf_built_def after_def V_operator_new_def
        desc_def desc_init_Leaf create_object_def alloc_def register_object_def
        gc_destructor_def run_destructor_def)
       (simp add: Leaf_def Node_def start_def debug_build_def leaf_desc_def)
  from desc_same_instance_and_immutable [OF h1 h2] h1 h2 show ?thesis by auto
qed

subsection \<open>The hooks\<close>

text \<open>
  Claim C2, at the class \<open>Twice\<close>. The class declares members named \<open>finaliser\<close> and
  members named \<open>notified\<close>, and for each name one of them has the shape the wrapper
  calls. Both names are overloaded, so neither \<open>has_finaliser\<close> nor \<open>has_notified\<close>
  holds: the class builds, and both pointers of its descriptor are null.
\<close>

theorem overloaded_hooks_not_wired:
  "declared (m_finaliser Twice) \<and> declared (m_notified Twice)
   \<and> call_target (m_finaliser Twice) \<noteq> None \<and> call_target (m_notified Twice) \<noteq> None
   \<and> map_sum id finalize_fn (desc_init Twice) = Inr None
   \<and> map_sum id notify_fn (desc_init Twice) = Inr None"
  by (simp add: desc_init_def Twice_def declared_def wrapper_defs probe_defs)

text \<open>
  Claim C9, at the class \<open>Misfit\<close>. The class declares two members named \<open>notified\<close>,
  neither of the shape the wrapper calls. The detection does not see them, the call in
  the wrapper is discarded, the build succeeds and the hook is left out without a
  word.
\<close>

theorem misshapen_overloads_silently_ignored:
  "declared (m_notified Misfit) \<and> call_target (m_notified Misfit) = None
   \<and> \<not> has_notified Misfit
   \<and> \<not> isl (desc_init Misfit)
   \<and> map_sum id notify_fn (desc_init Misfit) = Inr None"
  by (simp add: desc_init_def Misfit_def declared_def wrapper_defs probe_defs)

subsection \<open>Tracing\<close>

text \<open>
  Claim C3. The \<open>trace_fn\<close> of every descriptor is not null. For a class that declares no
  \<open>trace\<close> of its own, calling it pushes nothing: the stack comes back as it went in, so
  that no outgoing reference is reported, and the program state is untouched.
\<close>

theorem trace_fn_present_and_empty_by_default:
  assumes "desc_init T = Inr D"
  shows "trace_fn D \<noteq> None
       \<and> (m_trace T = NotDeclared \<longrightarrow>
            (\<exists>f. trace_fn D = Some f \<and> (\<forall>obj st w. f obj st w = (st, w))))"
proof -
  obtain tr where tr: "gc_trace T = Inr tr" and D: "trace_fn D = Some tr"
    using assms by (auto simp: desc_init_def split: sum.splits)
  have "tr = VBase_trace" if "m_trace T = NotDeclared"
    using tr that by (simp add: gc_trace_def)
  then show ?thesis using D by (auto simp: VBase_trace_def)
qed

text \<open>
  The theorem at \<open>Leaf\<close>.
\<close>

theorem trace_fn_present_and_empty_by_default_witness:
  "desc_init Leaf = Inr leaf_desc
   \<and> m_trace Leaf = NotDeclared
   \<and> trace_fn leaf_desc \<noteq> None
   \<and> (\<exists>f. trace_fn leaf_desc = Some f \<and> (\<forall>obj st w. f obj st w = (st, w)))"
  using trace_fn_present_and_empty_by_default [OF desc_init_Leaf] desc_init_Leaf
  by (simp add: Leaf_def)

subsection \<open>Destruction\<close>

text \<open>
  Claim C4. The \<open>destroy_fn\<close> of a descriptor is null exactly when the class is trivially
  destructible, and then the teardown does nothing. Otherwise \<open>destroy_fn\<close> is the
  teardown of the class: a call of it on an object is one run of the destructor on that
  object.
\<close>

theorem destroy_fn_null_iff_trivially_destructible:
  assumes "desc_init T = Inr D"
  shows "(destroy_fn D = None \<longleftrightarrow> is_trivially_destructible T)
       \<and> (is_trivially_destructible T \<longrightarrow> (\<forall>obj w. gc_destructor T obj w = w))
       \<and> (\<forall>f. destructor T = NonTrivial f \<longrightarrow> destroy_fn D = Some f)"
proof -
  have D: "destroy_fn D = (if has_destructor T then Some (gc_destructor T) else None)"
    using assms by (auto simp: desc_init_def split: sum.splits)
  have n: "destroy_fn D = None \<longleftrightarrow> is_trivially_destructible T"
    using D by (simp add: has_destructor_def)
  have t: "is_trivially_destructible T \<longrightarrow> (\<forall>obj w. gc_destructor T obj w = w)"
    by (simp add: is_trivially_destructible_def gc_destructor_def run_destructor_def
        split: teardown.splits)
  have f: "destroy_fn D = Some f" if "destructor T = NonTrivial f" for f
    using D that
    by (simp add: has_destructor_def is_trivially_destructible_def gc_destructor_def
        run_destructor_def fun_eq_iff)
  show ?thesis using n t f by blast
qed

text \<open>
  The theorem at \<open>Node\<close>, whose destructor records its call: after \<open>destroy_fn\<close> on the
  object 7 the record holds this one call. \<open>Leaf\<close> is trivially destructible.
\<close>

theorem destroy_fn_null_iff_trivially_destructible_witness:
  "desc_init Node = Inr node_desc
   \<and> \<not> is_trivially_destructible Node
   \<and> destructor Node = NonTrivial (\<lambda>this w. w @ [Destroyed this])
   \<and> map_option (\<lambda>f. f 7 []) (destroy_fn node_desc) = Some [Destroyed 7]
   \<and> is_trivially_destructible Leaf"
  using destroy_fn_null_iff_trivially_destructible [OF desc_init_Node] desc_init_Node
  by (simp add: Node_def Leaf_def is_trivially_destructible_def)


subsection \<open>Allocation\<close>

text \<open>
  Claim C7. For a class that builds, each of the five allocation functions either fails
  because the allocator cannot satisfy the request, or returns memory that is
  registered against the descriptor pointer that \<open>desc()\<close> of the same adapter returns:
  \<open>V\<close> for the two functions of plain objects, \<open>VCown\<close> for the three of owners (the
  one with a requested size when its assertion does not stop it). After the function
  for a fresh region the returned object is the root of its region, and the region has
  the kind asked for. When the memory left is enough for the request, the function
  returns (for the two of plain objects: when the static, if it is initialised already,
  holds the size of the class, as it does after \<open>desc()\<close> of the class).
\<close>

theorem allocation_registers_descriptor:
  assumes "desc_init T = Inr D"
  shows "(V_operator_new b T sz s = Inl AllocationFailed
          \<or> (\<exists>p s1. V_operator_new b T sz s = Inr (p, s1)
                \<and> tags s1 p = Some (DescOf (tname T) Object)
                \<and> desc T Object s1 = Inr (DescOf (tname T) Object, s1)))
       \<and> (V_operator_new_region b T sz rt s = Inl AllocationFailed
          \<or> (\<exists>p s1. V_operator_new_region b T sz rt s = Inr (p, s1)
                \<and> tags s1 p = Some (DescOf (tname T) Object)
                \<and> desc T Object s1 = Inr (DescOf (tname T) Object, s1)
                \<and> region_of s1 p = Some p \<and> region_kind s1 p = Some rt))
       \<and> (VCown_operator_new b T sz s = Inl AllocationFailed
          \<or> (\<exists>p s1. VCown_operator_new b T sz s = Inr (p, s1)
                \<and> tags s1 p = Some (DescOf (tname T) Cown)
                \<and> desc T Cown s1 = Inr (DescOf (tname T) Cown, s1)))
       \<and> (VCown_operator_new_alloc b T sz a s = Inl AllocationFailed
          \<or> (\<exists>p s1. VCown_operator_new_alloc b T sz a s = Inr (p, s1)
                \<and> tags s1 p = Some (DescOf (tname T) Cown)
                \<and> desc T Cown s1 = Inr (DescOf (tname T) Cown, s1)))
       \<and> (NDEBUG b \<or> base_size \<le> req_size \<longrightarrow>
            VCown_operator_new_sized b T base_size req_size s = Inl AllocationFailed
            \<or> (\<exists>p s1. VCown_operator_new_sized b T base_size req_size s = Inr (p, s1)
                  \<and> tags s1 p = Some (DescOf (tname T) Cown)
                  \<and> desc T Cown s1 = Inr (DescOf (tname T) Cown, s1)))
       \<and> ((\<forall>D1. statics s (DescOf (tname T) Object) = Some D1 \<longrightarrow> desc_size D1 = vsizeof T)
            \<and> brk s + vsizeof T \<le> limit s \<longrightarrow>
            (\<exists>p s1. V_operator_new b T sz s = Inr (p, s1))
            \<and> (\<exists>p s1. V_operator_new_region b T sz rt s = Inr (p, s1)))
       \<and> (brk s + vsizeof T \<le> limit s \<longrightarrow>
            (\<exists>p s1. VCown_operator_new b T sz s = Inr (p, s1))
            \<and> (\<exists>p s1. VCown_operator_new_alloc b T sz a s = Inr (p, s1)))
       \<and> ((NDEBUG b \<or> base_size \<le> req_size) \<and> brk s + req_size \<le> limit s \<longrightarrow>
            (\<exists>p s1. VCown_operator_new_sized b T base_size req_size s = Inr (p, s1)))"
proof -
  have v: "V_operator_new b T sz s = Inl AllocationFailed
          \<or> (\<exists>p s1. V_operator_new b T sz s = Inr (p, s1)
                \<and> tags s1 p = Some (DescOf (tname T) Object)
                \<and> desc T Object s1 = Inr (DescOf (tname T) Object, s1))"
    by (rule desc_reach [OF assms, of Object s])
       (auto simp: V_operator_new_def create_object_def alloc_def register_object_def
          intro!: desc_again [OF assms] split: option.splits)
  have r: "V_operator_new_region b T sz rt s = Inl AllocationFailed
          \<or> (\<exists>p s1. V_operator_new_region b T sz rt s = Inr (p, s1)
                \<and> tags s1 p = Some (DescOf (tname T) Object)
                \<and> desc T Object s1 = Inr (DescOf (tname T) Object, s1)
                \<and> region_of s1 p = Some p \<and> region_kind s1 p = Some rt)"
    by (rule desc_reach [OF assms, of Object s])
       (auto simp: V_operator_new_region_def create_fresh_region_def alloc_def
          register_object_def intro!: desc_again [OF assms] split: option.splits)
  have c: "VCown_operator_new b T sz s = Inl AllocationFailed
          \<or> (\<exists>p s1. VCown_operator_new b T sz s = Inr (p, s1)
                \<and> tags s1 p = Some (DescOf (tname T) Cown)
                \<and> desc T Cown s1 = Inr (DescOf (tname T) Cown, s1))"
    by (rule desc_reach [OF assms, of Cown s])
       (auto simp: VCown_operator_new_def alloc_def register_object_def
          intro!: desc_again [OF assms])
  have ca: "VCown_operator_new_alloc b T sz a s = Inl AllocationFailed
          \<or> (\<exists>p s1. VCown_operator_new_alloc b T sz a s = Inr (p, s1)
                \<and> tags s1 p = Some (DescOf (tname T) Cown)
                \<and> desc T Cown s1 = Inr (DescOf (tname T) Cown, s1))"
    by (rule desc_reach [OF assms, of Cown s])
       (auto simp: VCown_operator_new_alloc_def alloc_def register_object_def
          intro!: desc_again [OF assms])
  have cs: "NDEBUG b \<or> base_size \<le> req_size \<longrightarrow>
            VCown_operator_new_sized b T base_size req_size s = Inl AllocationFailed
            \<or> (\<exists>p s1. VCown_operator_new_sized b T base_size req_size s = Inr (p, s1)
                  \<and> tags s1 p = Some (DescOf (tname T) Cown)
                  \<and> desc T Cown s1 = Inr (DescOf (tname T) Cown, s1))"
    by (rule desc_reach [OF assms, of Cown s])
       (auto simp: VCown_operator_new_sized_def alloc_def register_object_def
          intro!: desc_again [OF assms])
  have v_ok: "(\<exists>p s1. V_operator_new b T sz s = Inr (p, s1))
            \<and> (\<exists>p s1. V_operator_new_region b T sz rt s = Inr (p, s1))"
    if sz: "\<forall>D1. statics s (DescOf (tname T) Object) = Some D1 \<longrightarrow> desc_size D1 = vsizeof T"
      and room: "brk s + vsizeof T \<le> limit s"
  proof (rule desc_reach [OF assms, of Object s])
    fix s1 D1
    assume d: "desc T Object s = Inr (DescOf (tname T) Object, s1)"
      and s1: "statics s1 (DescOf (tname T) Object) = Some D1"
      and how: "statics s (DescOf (tname T) Object) = Some D1 \<and> s1 = s
           \<or> statics s (DescOf (tname T) Object) = None \<and> D1 = D
             \<and> s1 = s\<lparr> statics := (statics s)(DescOf (tname T) Object \<mapsto> D) \<rparr>"
    from how sz desc_init_size [OF assms] have size: "desc_size D1 = vsizeof T" by auto
    from how have fr: "brk s1 = brk s" "limit s1 = limit s" by auto
    show ?thesis
      using room
      by (simp add: V_operator_new_def V_operator_new_region_def d create_object_def
          create_fresh_region_def s1 size alloc_def fr register_object_def)
  qed
  have c_ok: "brk s + vsizeof T \<le> limit s \<longrightarrow>
            (\<exists>p s1. VCown_operator_new b T sz s = Inr (p, s1))
            \<and> (\<exists>p s1. VCown_operator_new_alloc b T sz a s = Inr (p, s1))"
    by (rule desc_reach [OF assms, of Cown s])
       (auto simp: VCown_operator_new_def VCown_operator_new_alloc_def alloc_def
          register_object_def)
  have cs_ok: "(NDEBUG b \<or> base_size \<le> req_size) \<and> brk s + req_size \<le> limit s \<longrightarrow>
            (\<exists>p s1. VCown_operator_new_sized b T base_size req_size s = Inr (p, s1))"
    by (rule desc_reach [OF assms, of Cown s])
       (auto simp: VCown_operator_new_sized_def alloc_def register_object_def)
  show ?thesis using v r c ca cs v_ok c_ok cs_ok by blast
qed

text \<open>
  \<open>new (RegionType 1) Node\<close> in the empty state.
\<close>

lemma node_root_eval:
  "V_operator_new_region debug_build Node 24 (RegionType 1) start = Inr (16, node_root)"
  by (simp add: V_operator_new_region_def desc_def desc_init_Node create_fresh_region_def
      alloc_def register_object_def node_root_def Node_fields start_def debug_build_def)
     (simp add: node_desc_def)

text \<open>
  The theorem at \<open>Node\<close> in the empty state, in the state after a first allocation, and
  in the state with no memory left.
\<close>

theorem allocation_registers_descriptor_witness:
  "desc_init Node = Inr node_desc
   \<and> V_operator_new_region debug_build Node 24 (RegionType 1) start = Inr (16, node_root)
   \<and> tags node_root 16 = Some (DescOf ''Node'' Object)
   \<and> desc Node Object node_root = Inr (DescOf ''Node'' Object, node_root)
   \<and> region_of node_root 16 = Some 16 \<and> region_kind node_root 16 = Some (RegionType 1)
   \<and> (NDEBUG debug_build \<or> (24::nat) \<le> 64) \<and> brk start + 64 \<le> limit start
   \<and> (\<exists>p s1. VCown_operator_new_sized debug_build Node 24 64 start = Inr (p, s1)
         \<and> tags s1 p = Some (DescOf ''Node'' Cown)
         \<and> desc Node Cown s1 = Inr (DescOf ''Node'' Cown, s1))
   \<and> statics node_root (DescOf ''Node'' Object) = Some node_desc
   \<and> desc_size node_desc = vsizeof Node
   \<and> brk node_root + vsizeof Node \<le> limit node_root
   \<and> (\<exists>p s1. V_operator_new debug_build Node 24 node_root = Inr (p, s1))
   \<and> V_operator_new debug_build Node 24 full = Inl AllocationFailed"
proof -
  note at_start = allocation_registers_descriptor
      [OF desc_init_Node, of debug_build 24 start "RegionType 1" "Alloc 1" 24 64]
  note at_root = allocation_registers_descriptor
      [OF desc_init_Node, of debug_build 24 node_root "RegionType 1" "Alloc 1" 24 64]
  have full: "V_operator_new debug_build Node 24 full = Inl AllocationFailed"
    by (simp add: V_operator_new_def desc_def desc_init_Node create_object_def alloc_def
        full_def start_def Node_fields)
       (simp add: node_desc_def)
  have fits: "NDEBUG debug_build \<or> (24::nat) \<le> 64" by simp
  have room: "brk start + 64 \<le> limit start" by (simp add: start_def)
  have held: "statics node_root (DescOf ''Node'' Object) = Some node_desc"
    by (simp add: node_root_def)
  have size: "desc_size node_desc = vsizeof Node"
    by (simp add: node_desc_def Node_fields)
  have size': "\<forall>D1. statics node_root (DescOf (tname Node) Object) = Some D1 \<longrightarrow>
      desc_size D1 = vsizeof Node"
    using held size by (simp add: Node_fields)
  have room2: "brk node_root + vsizeof Node \<le> limit node_root"
    by (simp add: node_root_def start_def Node_fields)
  have region: "tags node_root 16 = Some (DescOf ''Node'' Object)"
    "region_of node_root 16 = Some 16" "region_kind node_root 16 = Some (RegionType 1)"
    by (simp_all add: node_root_def)
  have same: "desc Node Object node_root = Inr (DescOf ''Node'' Object, node_root)"
    by (simp add: desc_def desc_init_Node Node_fields node_root_def)
  have returns: "\<exists>p s1. VCown_operator_new_sized debug_build Node 24 64 start = Inr (p, s1)"
    using at_start [THEN conjunct2, THEN conjunct2, THEN conjunct2, THEN conjunct2,
      THEN conjunct2, THEN conjunct2, THEN conjunct2] fits room by blast
  have tagged: "VCown_operator_new_sized debug_build Node 24 64 start = Inl AllocationFailed
      \<or> (\<exists>p s1. VCown_operator_new_sized debug_build Node 24 64 start = Inr (p, s1)
            \<and> tags s1 p = Some (DescOf (tname Node) Cown)
            \<and> desc Node Cown s1 = Inr (DescOf (tname Node) Cown, s1))"
    using at_start [THEN conjunct2, THEN conjunct2, THEN conjunct2, THEN conjunct2,
      THEN conjunct1] fits by blast
  from returns tagged
  have sized: "\<exists>p s1. VCown_operator_new_sized debug_build Node 24 64 start = Inr (p, s1)
         \<and> tags s1 p = Some (DescOf ''Node'' Cown)
         \<and> desc Node Cown s1 = Inr (DescOf ''Node'' Cown, s1)"
    by (auto simp: Node_fields)
  have again: "\<exists>p s1. V_operator_new debug_build Node 24 node_root = Inr (p, s1)"
    using at_root [THEN conjunct2, THEN conjunct2, THEN conjunct2, THEN conjunct2,
      THEN conjunct2, THEN conjunct1] size' room2 by blast
  show ?thesis
    by (intro conjI desc_init_Node node_root_eval region same fits room sized held size
        room2 again full)
qed



text \<open>
  \<open>desc()\<close> returns for every class that builds, and touches only the statics.
\<close>

lemma desc_total:
  "desc_init T = Inr D \<Longrightarrow> \<exists>s1. desc T B s = Inr (DescOf (tname T) B, s1)"
  by (simp add: desc_def split: option.splits)

lemma desc_frame:
  assumes "desc T B s = Inr (p, s1)"
  shows "brk s1 = brk s" "limit s1 = limit s" "blocks s1 = blocks s" "tags s1 = tags s"
    "thread_alloc s1 = thread_alloc s" "world s1 = world s"
  using assms by (auto simp: desc_def split: sum.splits option.splits)

subsection \<open>Allocation with a requested size\<close>

text \<open>
  Claim C5 as it is written fails at two inputs, both for \<open>Leaf\<close> (16 bytes, 32 with the
  header of 16). With \<open>NDEBUG\<close> defined, a request of 8 bytes, less than \<open>sizeof(Leaf)\<close>,
  is not rejected: the function returns the pointer 16. With assertions enabled, a
  request of 20 bytes, less than the footprint \<open>vsizeof<Leaf>\<close> but not less than
  \<open>sizeof(Leaf)\<close>, passes the assertion: the function returns the pointer 16, and the 16
  bytes of a \<open>Leaf\<close> at this pointer do not lie inside the block of 20 bytes at 0.
\<close>

theorem sized_allocation_not_always_rejected:
  "(8::nat) < sizeof Leaf
   \<and> map_sum id fst (VCown_operator_new_sized release_build Leaf (sizeof Leaf) 8 start) = Inr 16
   \<and> (20::nat) < vsizeof Leaf
   \<and> \<not> isl (VCown_operator_new_sized debug_build Leaf (sizeof Leaf) 20 start)
   \<and> fst (projr (VCown_operator_new_sized debug_build Leaf (sizeof Leaf) 20 start)) = 16
   \<and> \<not> inside_block
         (snd (projr (VCown_operator_new_sized debug_build Leaf (sizeof Leaf) 20 start)))
         0 16 (sizeof Leaf)"
  by (simp add: VCown_operator_new_sized_def desc_def desc_init_Leaf alloc_def
      register_object_def inside_block_def Leaf_fields start_def release_build_def
      debug_build_def)

text \<open>
  Claim C5, amended. In a build with assertions, a requested size below the base size
  (the first argument, the \<open>sizeof\<close> that the new-expression passes) stops the program
  with a failed assertion, and nothing is returned. In every build, for a class that
  builds and a requested size of at least the base size plus the header: when the
  allocator of the thread can satisfy the request, the allocation succeeds, the block
  of exactly the requested size is registered against the descriptor of \<open>VCown<T>\<close>,
  the pointer returned is the block advanced by the header, and the base size in bytes
  at this pointer lies inside the block. When the allocator cannot satisfy a request
  that passed the assertion, the function fails with an allocation failure and returns
  nothing.
\<close>

theorem sized_allocation_checked_in_debug:
  "(\<not> NDEBUG b \<and> req_size < base_size \<longrightarrow>
      VCown_operator_new_sized b T base_size req_size s = Inl AssertionFailed)
   \<and> (desc_init T = Inr D \<and> base_size + header_size b \<le> req_size
        \<and> brk s + req_size \<le> limit s \<longrightarrow>
       (\<exists>s1. VCown_operator_new_sized b T base_size req_size s
                = Inr (brk s + header_size b, s1)
          \<and> blocks s1 (brk s) = Some (req_size, thread_alloc s)
          \<and> tags s1 (brk s + header_size b) = Some (DescOf (tname T) Cown)
          \<and> inside_block s1 (brk s) (brk s + header_size b) base_size))
   \<and> (desc_init T = Inr D \<and> (NDEBUG b \<or> base_size \<le> req_size)
        \<and> limit s < brk s + req_size \<longrightarrow>
       VCown_operator_new_sized b T base_size req_size s = Inl AllocationFailed)"
proof -
  have a: "\<not> NDEBUG b \<and> req_size < base_size \<longrightarrow>
      VCown_operator_new_sized b T base_size req_size s = Inl AssertionFailed"
    by (simp add: VCown_operator_new_sized_def)
  have c: "\<exists>s1. VCown_operator_new_sized b T base_size req_size s
                = Inr (brk s + header_size b, s1)
          \<and> blocks s1 (brk s) = Some (req_size, thread_alloc s)
          \<and> tags s1 (brk s + header_size b) = Some (DescOf (tname T) Cown)
          \<and> inside_block s1 (brk s) (brk s + header_size b) base_size"
    if D: "desc_init T = Inr D" and fit: "base_size + header_size b \<le> req_size"
      and room: "brk s + req_size \<le> limit s"
  proof -
    obtain s0 where d: "desc T Cown s = Inr (DescOf (tname T) Cown, s0)"
      using desc_total [OF D] by blast
    note fr = desc_frame [OF d]
    from fit have ok: "NDEBUG b \<or> base_size \<le> req_size" by simp
    show ?thesis
      using fit room ok
      by (simp add: VCown_operator_new_sized_def d alloc_def fr register_object_def
          inside_block_def)
  qed
  have f: "VCown_operator_new_sized b T base_size req_size s = Inl AllocationFailed"
    if D: "desc_init T = Inr D" and ok: "NDEBUG b \<or> base_size \<le> req_size"
      and full: "limit s < brk s + req_size"
  proof -
    obtain s0 where d: "desc T Cown s = Inr (DescOf (tname T) Cown, s0)"
      using desc_total [OF D] by blast
    note fr = desc_frame [OF d]
    show ?thesis
      using ok full by (auto simp: VCown_operator_new_sized_def d alloc_def fr)
  qed
  show ?thesis using a c f by blast
qed

text \<open>
  The theorem at \<open>Leaf\<close> in a build with assertions: a request of 8 bytes, a request of 48
  bytes, and a request of 48 bytes with no memory left.
\<close>

theorem sized_allocation_checked_in_debug_witness:
  "\<not> NDEBUG debug_build \<and> (8::nat) < 16
   \<and> VCown_operator_new_sized debug_build Leaf 16 8 start = Inl AssertionFailed
   \<and> desc_init Leaf = Inr leaf_desc
   \<and> 16 + header_size debug_build \<le> 48 \<and> brk start + 48 \<le> limit start
   \<and> (\<exists>s1. VCown_operator_new_sized debug_build Leaf 16 48 start = Inr (16, s1)
          \<and> blocks s1 0 = Some (48, Alloc 0)
          \<and> tags s1 16 = Some (DescOf ''Leaf'' Cown)
          \<and> inside_block s1 0 16 16)
   \<and> (NDEBUG debug_build \<or> (16::nat) \<le> 48) \<and> limit full < brk full + 48
   \<and> VCown_operator_new_sized debug_build Leaf 16 48 full = Inl AllocationFailed"
  using sized_allocation_checked_in_debug
      [where b = debug_build and req_size = 8 and base_size = 16 and T = Leaf and s = start]
    sized_allocation_checked_in_debug
      [where b = debug_build and req_size = 48 and base_size = 16 and T = Leaf and s = start
        and D = leaf_desc]
    sized_allocation_checked_in_debug
      [where b = debug_build and req_size = 48 and base_size = 16 and T = Leaf and s = full
        and D = leaf_desc]
    desc_init_Leaf
  by (simp add: debug_build_def start_def full_def Leaf_fields)


subsection \<open>Deallocation\<close>





lemma erase_eq_iff:
  "without_destroy_fn s = without_destroy_fn s' \<longleftrightarrow>
     (\<forall>p. map_option (\<lambda>D. D\<lparr> destroy_fn := None \<rparr>) (statics s p)
          = map_option (\<lambda>D. D\<lparr> destroy_fn := None \<rparr>) (statics s' p))
     \<and> brk s = brk s' \<and> limit s = limit s' \<and> blocks s = blocks s' \<and> tags s = tags s'
     \<and> region_of s = region_of s' \<and> region_kind s = region_kind s'
     \<and> current_region s = current_region s' \<and> thread_alloc s = thread_alloc s'
     \<and> world s = world s' \<and> runtime.more s = runtime.more s'"
  by (cases s; cases s') (simp add: without_destroy_fn_def fun_eq_iff)


lemma alloc_erase:
  assumes "without_destroy_fn s = without_destroy_fn s'"
  shows "map_sum id (map_prod id without_destroy_fn) (alloc a n s)
       = map_sum id (map_prod id without_destroy_fn) (alloc a n s')"
  using assms by (simp add: alloc_def erase_eq_iff)

lemma register_object_erase:
  assumes "without_destroy_fn s = without_destroy_fn s'"
  shows "map_prod id without_destroy_fn (register_object b m p s)
       = map_prod id without_destroy_fn (register_object b m p s')"
  using assms by (simp add: register_object_def erase_eq_iff)

















subsection \<open>Arrays\<close>

text \<open>
  Claim C10 as it is written fails at two inputs. \<open>::new Leaf[n]\<close> and \<open>::delete[] p\<close>
  select the functions of the global scope, which are not deleted. For \<open>Pool\<close>, which
  declares its own array forms, \<open>new Pool[n]\<close> and \<open>delete[] p\<close> select these, which
  hide the deleted ones of \<open>VBase\<close>. In both cases the build succeeds.
\<close>

theorem array_forms_reachable_outside_class_scope:
  "resolve Leaf Object True OpNewArray [P_size_t]
     = Inr (OfGlobal, \<lparr> op = OpNewArray, params = [P_size_t], deleted = False \<rparr>)
   \<and> resolve Leaf Object True OpDeleteArray [P_void_ptr]
     = Inr (OfGlobal, \<lparr> op = OpDeleteArray, params = [P_void_ptr], deleted = False \<rparr>)
   \<and> resolve Pool Cown False OpNewArray [P_size_t]
     = Inr (OfClass, \<lparr> op = OpNewArray, params = [P_size_t], deleted = False \<rparr>)
   \<and> resolve Pool Cown False OpDeleteArray [P_void_ptr]
     = Inr (OfClass, \<lparr> op = OpDeleteArray, params = [P_void_ptr], deleted = False \<rparr>)"
  by (simp add: resolve_def lookup_op_def named_def global_ops_def Pool_def)

text \<open>
  Claim C10, amended. For a class that declares no \<open>operator new[]\<close> of its own, in
  \<open>V<T>\<close> and in \<open>VCown<T>\<close>, an array new-expression without the prefix \<open>::\<close> selects,
  for every list of argument types, no function that can be used, and the build fails;
  for the argument list of the declaration the reason is that the selected function is
  deleted. The same holds for \<open>operator delete[]\<close> and the array delete-expression.
\<close>

theorem array_forms_deleted_in_class_scope:
  "(named OpNewArray (m_ops T) = [] \<longrightarrow>
      (\<exists>e. resolve T B False OpNewArray args = Inl e)
      \<and> resolve T B False OpNewArray [P_size_t] = Inl DeletedFunction)
   \<and> (named OpDeleteArray (m_ops T) = [] \<longrightarrow>
      (\<exists>e. resolve T B False OpDeleteArray args = Inl e)
      \<and> resolve T B False OpDeleteArray [P_void_ptr] = Inl DeletedFunction
      \<and> resolve T B False OpDeleteArray [P_void_ptr, P_size_t] = Inl DeletedFunction)"
  by (cases B)
     (auto simp: resolve_def lookup_op_def named_def VBase_ops_def split: list.splits)

text \<open>
  The theorem at \<open>Leaf\<close>, for both adapters.
\<close>

theorem array_forms_deleted_in_class_scope_witness:
  "named OpNewArray (m_ops Leaf) = [] \<and> named OpDeleteArray (m_ops Leaf) = []
   \<and> resolve Leaf Object False OpNewArray [P_size_t] = Inl DeletedFunction
   \<and> resolve Leaf Cown False OpDeleteArray [P_void_ptr] = Inl DeletedFunction
   \<and> resolve Leaf Cown False OpDeleteArray [P_void_ptr, P_size_t] = Inl DeletedFunction
   \<and> resolve Leaf Object False OpNewArray [P_size_t, P_RegionType] = Inl NoViableFunction"
proof -
  have h: "named OpNewArray (m_ops Leaf) = []" "named OpDeleteArray (m_ops Leaf) = []"
    by (simp_all add: named_def Leaf_def)
  have n: "resolve Leaf Object False OpNewArray [P_size_t, P_RegionType] = Inl NoViableFunction"
    by (simp add: resolve_def lookup_op_def named_def VBase_ops_def Leaf_def)
  from array_forms_deleted_in_class_scope [where T = Leaf and B = Object]
    array_forms_deleted_in_class_scope [where T = Leaf and B = Cown] h n
  show ?thesis by simp
qed

text \<open>
  The forms for single objects do select a function.
\<close>

lemma single_forms_resolve:
  "resolve Leaf Object False OpNew [P_size_t, P_RegionType]
     = Inr (OfAdapter, \<lparr> op = OpNew, params = [P_size_t, P_RegionType], deleted = False \<rparr>)"
  "resolve Leaf Cown False OpNew [P_size_t, P_size_t]
     = Inr (OfAdapter, \<lparr> op = OpNew, params = [P_size_t, P_size_t], deleted = False \<rparr>)"
  "resolve Leaf B False OpDelete [P_void_ptr]
     = Inr (OfVBase, \<lparr> op = OpDelete, params = [P_void_ptr], deleted = False \<rparr>)"
  by (cases B; simp add: resolve_def lookup_op_def named_def VBase_ops_def Leaf_def)+

end
